theory Spec2Isabelle
  imports Main "HOL-Library.Word"
begin

unbundle bit_operations_syntax

section \<open>The Linux framebuffer backend of Twin (src/backend/fbdev.c)\<close>

text \<open>
  The embedding follows the C source function by function. Machine integers are words of
  the width the LP64 Linux ABI gives them: \<open>int\<close> and \<open>__u32\<close> are 32 bits,
  \<open>size_t\<close>, \<open>off_t\<close>, \<open>unsigned long\<close> and pointers are 64 bits. File descriptors,
  signal numbers and ioctl arguments are only passed around, never computed with, and are
  kept as \<open>int\<close>. Every call that leaves the backend (ioctl, mmap, munmap, close, free,
  the screen and input collaborators) is appended to a log of calls, in program order; what
  such a call answers is an input of the model.
\<close>

subsection \<open>Data of the kernel interface (linux/fb.h, termios.h)\<close>

record fb_bitfield =
  bf_offset :: "32 word"
  bf_length :: "32 word"

record fb_var_screeninfo =
  xres :: "32 word"
  yres :: "32 word"
  xres_virtual :: "32 word"
  yres_virtual :: "32 word"
  bits_per_pixel :: "32 word"
  red :: fb_bitfield
  green :: fb_bitfield
  blue :: fb_bitfield

record fb_fix_screeninfo =
  smem_start :: "64 word"
  smem_len :: "32 word"
  line_length :: "32 word"

record termios =
  c_iflag :: "32 word"
  c_oflag :: "32 word"
  c_cflag :: "32 word"
  c_lflag :: "32 word"
  c_cc :: "8 word list"
  c_ispeed :: "32 word"
  c_ospeed :: "32 word"

definition MAP_FAILED :: "64 word" where
  "MAP_FAILED = - 1"

definition KD_TEXT :: int where "KD_TEXT = 0"
definition KD_GRAPHICS :: int where "KD_GRAPHICS = 1"
definition K_MEDIUMRAW :: int where "K_MEDIUMRAW = 2"
definition VT_PROCESS :: int where "VT_PROCESS = 1"
definition VT_ACKACQ :: int where "VT_ACKACQ = 2"
definition SIGUSR1 :: int where "SIGUSR1 = 10"

subsection \<open>Data of the window system (twin.h), as far as the backend touches it\<close>

text \<open>
  Modelled from the spec: the header twin.h, which declares the coordinate and pixel types
  and the screen, is not among the sources. A pixel is the spec's ARGB8888, a 32-bit word.
  The spec gives no width for a coordinate; it is the header's signed 16-bit integer, read
  with \<open>sint\<close>. Every signed type no wider than \<open>int\<close> is promoted the same way in the
  arithmetic of the span writers. Of a screen only the fields the backend reads are kept.
\<close>

type_synonym twin_coord_t = "16 word"
type_synonym twin_argb32_t = "32 word"

text \<open>The span writer a screen is bound to: one of the three functions of the table
  \<open>fbdev_put_spans\<close>, or an indeterminate pointer when the table is read out of range.\<close>

datatype put_span = Put_span16 | Put_span24 | Put_span32 | Put_span_indeterminate

record twin_screen_t =
  scr_width :: twin_coord_t
  scr_height :: twin_coord_t
  scr_put_span :: put_span

datatype sighandler = Handler_vtswitch | SIG_IGN

subsection \<open>Calls that leave the backend\<close>

text \<open>
  One constructor for each library call, system call and collaborator the file calls, with
  the arguments the backend passes; a log line carries its format string. The collaborators (\<open>twin_screen_*\<close>,
  \<open>twin_linux_input_*\<close>, \<open>twin_vt_setup\<close>, \<open>twin_vt_mode\<close>, \<open>twin_set_work\<close>) are declared
  in headers that are not among the sources: the model records that they are called and
  takes what they answer as an input.
\<close>

datatype os_call =
    Getenv string
  | Log_info string
  | Log_error string
  | Open_rdwr string
  | Close int
  | Calloc_ctx
  | Calloc_priv
  | Free_priv
  | Free_ctx
  | Ioctl_FBIOGET_VSCREENINFO int
  | Ioctl_FBIOPUT_VSCREENINFO int fb_var_screeninfo
  | Ioctl_FBIOGET_FSCREENINFO int
  | Getpagesize
  | Mmap "64 word" int
  | Munmap "64 word" "64 word"
  | Ioctl_VT_RELDISP int int
  | Ioctl_VT_GETMODE int
  | Ioctl_VT_SETMODE int int int int
  | Signal int sighandler
  | Tcgetattr int
  | Tcsetattr int termios
  | Ioctl_KDGKBMODE int
  | Ioctl_KDSKBMODE int int
  | Ioctl_KDSETMODE int int
  | Twin_vt_setup
  | Twin_vt_mode int int
  | Twin_screen_create "32 word" "32 word" put_span
  | Twin_screen_destroy
  | Twin_screen_damaged
  | Twin_screen_update
  | Twin_screen_damage twin_coord_t twin_coord_t twin_coord_t twin_coord_t
  | Twin_linux_input_create
  | Twin_linux_input_destroy nat
  | Twin_set_work
  | Twin_screen_register_damaged

subsection \<open>The private state of the backend: \<open>twin_fbdev_t\<close>\<close>

text \<open>
  The struct of lines 27-48. Pointers to collaborators are \<open>option\<close>s (\<open>None\<close> is
  \<open>NULL\<close>); \<open>input\<close> is an opaque pointer, \<open>0\<close> being \<open>NULL\<close>. The colour map
  \<open>cmap\<close> is never read or written by the file and is left out. The last field is the log
  of calls made so far on behalf of this state.
\<close>

record twin_fbdev_t =
  tx_screen :: "twin_screen_t option"
  input :: nat
  vt_fd :: int
  vx_fd :: int
  vt_swsig :: int
  old_kbmode :: int
  old_tio :: termios
  vt_active :: bool
  fb_fd :: int
  fb_var :: fb_var_screeninfo
  fb_fix :: fb_fix_screeninfo
  fb_base :: "64 word"
  fb_len :: "64 word"
  calls :: "os_call list"

definition emit :: "os_call \<Rightarrow> twin_fbdev_t \<Rightarrow> twin_fbdev_t" where
  "emit c tx = tx\<lparr>calls := calls tx @ [c]\<rparr>"

subsection \<open>Format checks (lines 113-132)\<close>

definition twin_fbdev_is_rgb565 :: "twin_fbdev_t \<Rightarrow> bool" where
  "twin_fbdev_is_rgb565 tx \<longleftrightarrow>
     bf_offset (red (fb_var tx)) = 11 \<and> bf_length (red (fb_var tx)) = 5 \<and>
     bf_offset (green (fb_var tx)) = 5 \<and> bf_length (green (fb_var tx)) = 6 \<and>
     bf_offset (blue (fb_var tx)) = 0 \<and> bf_length (blue (fb_var tx)) = 5"

definition twin_fbdev_is_rgb888 :: "twin_fbdev_t \<Rightarrow> bool" where
  "twin_fbdev_is_rgb888 tx \<longleftrightarrow>
     bf_offset (red (fb_var tx)) = 16 \<and> bf_length (red (fb_var tx)) = 8 \<and>
     bf_offset (green (fb_var tx)) = 8 \<and> bf_length (green (fb_var tx)) = 8 \<and>
     bf_offset (blue (fb_var tx)) = 0 \<and> bf_length (blue (fb_var tx)) = 8"

definition twin_fbdev_is_argb32 :: "twin_fbdev_t \<Rightarrow> bool" where
  "twin_fbdev_is_argb32 tx \<longleftrightarrow>
     bf_offset (red (fb_var tx)) = 16 \<and> bf_length (red (fb_var tx)) = 8 \<and>
     bf_offset (green (fb_var tx)) = 8 \<and> bf_length (green (fb_var tx)) = 8 \<and>
     bf_offset (blue (fb_var tx)) = 0 \<and> bf_length (blue (fb_var tx)) = 8"

subsection \<open>\<open>twin_fbdev_apply_config\<close> (lines 134-201)\<close>

text \<open>
  What the kernel answers to one run of \<open>twin_fbdev_apply_config\<close>. An ioctl that
  fails (\<open>None\<close>) leaves the structure it was given untouched; one that succeeds writes
  the structure it answers. \<open>mmap\<close> answers an address, \<open>MAP_FAILED\<close> on failure.
\<close>

record os_reply =
  get_var1 :: "fb_var_screeninfo option"
  put_var :: "fb_var_screeninfo option"
  get_var2 :: "fb_var_screeninfo option"
  get_fix :: "fb_fix_screeninfo option"
  pagesize :: "32 word"
  mmap_result :: "64 word"

text \<open>
  The \<open>switch\<close> of lines 157-179: \<open>False\<close> where the C code returns \<open>false\<close>,
  \<open>True\<close> where control reaches line 181. The \<open>default\<close> label logs and breaks.
\<close>

definition examine_format :: "twin_fbdev_t \<Rightarrow> bool \<times> twin_fbdev_t" where
  "examine_format tx =
     (if bits_per_pixel (fb_var tx) = 16 then
        (if \<not> twin_fbdev_is_rgb565 tx
         then (False, emit (Log_error ''Invalid framebuffer format for 16 bpp'') tx)
         else (True, tx))
      else if bits_per_pixel (fb_var tx) = 24 then
        (if \<not> twin_fbdev_is_rgb888 tx
         then (False, emit (Log_error ''Invalid framebuffer format for 24 bpp'') tx)
         else (True, tx))
      else if bits_per_pixel (fb_var tx) = 32 then
        (if \<not> twin_fbdev_is_argb32 tx
         then (False, emit (Log_error ''Invalid framebuffer format for 32 bpp'') tx)
         else (True, tx))
      else (True, emit (Log_error ''Unsupported bits per pixel: %d'') tx))"

text \<open>
  Lines 185-190. \<open>getpagesize\<close> answers an \<open>int\<close>, sign-extended into the \<open>off_t\<close>
  \<open>pgsize\<close>; \<open>start\<close> is an \<open>off_t\<close>; the sum is formed in \<open>size_t\<close>. All three are
  64 bits wide, so signed and unsigned arithmetic coincide on the bit patterns.
\<close>

definition map_start :: "32 word \<Rightarrow> 64 word \<Rightarrow> 64 word" where
  "map_start pg base = base AND (scast pg - 1)"

definition map_length :: "32 word \<Rightarrow> 64 word \<Rightarrow> 32 word \<Rightarrow> 64 word" where
  "map_length pg base len =
     (map_start pg base + ucast len + (scast pg - 1)) AND NOT (scast pg - 1)"

definition twin_fbdev_apply_config :: "os_reply \<Rightarrow> twin_fbdev_t \<Rightarrow> bool \<times> twin_fbdev_t" where
  "twin_fbdev_apply_config r tx0 =
    (let tx1 = emit (Ioctl_FBIOGET_VSCREENINFO (fb_fd tx0)) tx0 in
     case get_var1 r of
       None \<Rightarrow> (False, emit (Log_error ''Failed to get framebuffer information'') tx1)
     | Some v1 \<Rightarrow>
    (let tx2 = tx1\<lparr>fb_var := v1\<rparr>;
         tx3 = tx2\<lparr>fb_var := (fb_var tx2)\<lparr>xres_virtual := xres (fb_var tx2)\<rparr>\<rparr>;
         tx4 = tx3\<lparr>fb_var := (fb_var tx3)\<lparr>yres_virtual := yres (fb_var tx3)\<rparr>\<rparr>;
         tx5 = emit (Ioctl_FBIOPUT_VSCREENINFO (fb_fd tx4) (fb_var tx4)) tx4 in
     case put_var r of
       None \<Rightarrow> (False, emit (Log_error ''Failed to set framebuffer mode'') tx5)
     | Some v2 \<Rightarrow>
    (let tx6 = emit (Ioctl_FBIOGET_VSCREENINFO (fb_fd tx5)) (tx5\<lparr>fb_var := v2\<rparr>) in
     case get_var2 r of
       None \<Rightarrow> (False, emit (Log_error ''Failed to get framebuffer information'') tx6)
     | Some v3 \<Rightarrow>
    (case examine_format (tx6\<lparr>fb_var := v3\<rparr>) of (ok, tx7) \<Rightarrow>
     if \<not> ok then (False, tx7) else
    (let tx8 = emit (Ioctl_FBIOGET_FSCREENINFO (fb_fd tx7)) tx7;
         tx9 = (case get_fix r of None \<Rightarrow> tx8 | Some f \<Rightarrow> tx8\<lparr>fb_fix := f\<rparr>);
         tx10 = emit Getpagesize tx9;
         tx11 = tx10\<lparr>fb_len := map_length (pagesize r) (smem_start (fb_fix tx10))
                                    (smem_len (fb_fix tx10))\<rparr>;
         tx12 = emit (Mmap (fb_len tx11) (fb_fd tx11)) tx11;
         tx13 = tx12\<lparr>fb_base := mmap_result r\<rparr> in
     if fb_base tx13 = MAP_FAILED
     then (False, emit (Log_error ''Failed to mmap framebuffer'') tx13)
     else (True, tx13))))))"

subsection \<open>\<open>twin_fbdev_switch\<close> (lines 203-232)\<close>

text \<open>
  The parameter \<open>activate\<close> is an \<open>int\<close> used as a truth value; its only caller passes
  \<open>!tx->vt_active\<close>. The reply is what the kernel answers should the function re-run
  \<open>twin_fbdev_apply_config\<close>.
\<close>

definition twin_fbdev_switch :: "os_reply \<Rightarrow> bool \<Rightarrow> twin_fbdev_t \<Rightarrow> twin_fbdev_t" where
  "twin_fbdev_switch r activate tx0 =
    (let tx1 = tx0\<lparr>vt_active := activate\<rparr> in
     if activate then
       (let tx2 = emit (Ioctl_VT_RELDISP (vt_fd tx1) VT_ACKACQ) tx1 in
        case twin_fbdev_apply_config r tx2 of (ok, tx3) \<Rightarrow>
          if ok then
            (let tx4 = tx3\<lparr>vt_active := True\<rparr> in
             case tx_screen tx4 of
               None \<Rightarrow> tx4
             | Some scr \<Rightarrow> emit (Twin_screen_damage 0 0 (scr_width scr) (scr_height scr)) tx4)
          else tx3)
     else
       (let tx2 = emit (Ioctl_VT_RELDISP (vt_fd tx1) 1) tx1;
            tx3 = tx2\<lparr>vt_active := False\<rparr> in
        if fb_base tx3 \<noteq> MAP_FAILED
        then (emit (Munmap (fb_base tx3) (fb_len tx3)) tx3)\<lparr>fb_base := MAP_FAILED\<rparr>
        else tx3))"

subsection \<open>The context, the pending flag, the tick and the signal handler (lines 234-256)\<close>

record twin_context_t =
  screen :: "twin_screen_t option"
  priv :: twin_fbdev_t

text \<open>The context together with the file-level flag \<open>vt_switch_pending\<close>.\<close>

record world =
  ctx :: twin_context_t
  vt_switch_pending :: bool

definition on_priv :: "(twin_fbdev_t \<Rightarrow> twin_fbdev_t) \<Rightarrow> world \<Rightarrow> world" where
  "on_priv f w = w\<lparr>ctx := (ctx w)\<lparr>priv := f (priv (ctx w))\<rparr>\<rparr>"

text \<open>
  What one tick is answered from outside: whether \<open>twin_screen_damaged\<close> reports damage,
  and the kernel's replies should the tick re-acquire the display.
\<close>

record tick_env =
  damaged :: bool
  config :: os_reply

definition twin_fbdev_work :: "tick_env \<Rightarrow> world \<Rightarrow> world" where
  "twin_fbdev_work e w0 =
    (let w1 = on_priv (emit Twin_screen_damaged) w0;
         w2 = (if damaged e then on_priv (emit Twin_screen_update) w1 else w1) in
     if vt_switch_pending w2
     then (on_priv (twin_fbdev_switch (config e) (\<not> vt_active (priv (ctx w2)))) w2)
            \<lparr>vt_switch_pending := False\<rparr>
     else w2)"

definition twin_fbdev_vtswitch :: "int \<Rightarrow> world \<Rightarrow> world" where
  "twin_fbdev_vtswitch sig w =
     (on_priv (emit (Signal sig Handler_vtswitch)) w)\<lparr>vt_switch_pending := True\<rparr>"

text \<open>The damage notification of lines 103-111; \<open>&&\<close> evaluates left to right and stops
  at the first false operand.\<close>

definition twin_fbdev_damaged :: "bool \<Rightarrow> world \<Rightarrow> world" where
  "twin_fbdev_damaged reports_damage w =
     (if vt_active (priv (ctx w)) \<and> screen (ctx w) \<noteq> None
      then (let w1 = on_priv (emit Twin_screen_damaged) w in
            if reports_damage then on_priv (emit Twin_screen_update) w1 else w1)
      else w)"

text \<open>Signals and ticks in sequence.\<close>

fun deliver :: "nat \<Rightarrow> int \<Rightarrow> world \<Rightarrow> world" where
  "deliver 0 sig w = w"
| "deliver (Suc n) sig w = deliver n sig (twin_fbdev_vtswitch sig w)"

fun run_ticks :: "tick_env list \<Rightarrow> world \<Rightarrow> world" where
  "run_ticks [] w = w"
| "run_ticks (e # es) w = run_ticks es (twin_fbdev_work e w)"

fun signal_then_tick :: "tick_env list \<Rightarrow> int \<Rightarrow> world \<Rightarrow> world" where
  "signal_then_tick [] sig w = w"
| "signal_then_tick (e # es) sig w =
     signal_then_tick es sig (twin_fbdev_work e (twin_fbdev_vtswitch sig w))"

text \<open>A VT transition is one run of \<open>twin_fbdev_switch\<close>; each run makes exactly one
  \<open>VT_RELDISP\<close> ioctl, so the transitions applied are the \<open>VT_RELDISP\<close> calls of the log.\<close>

fun is_reldisp :: "os_call \<Rightarrow> bool" where
  "is_reldisp (Ioctl_VT_RELDISP fd arg) = True"
| "is_reldisp c = False"

definition transitions :: "world \<Rightarrow> nat" where
  "transitions w = length (filter is_reldisp (calls (priv (ctx w))))"

subsection \<open>\<open>twin_fbdev_setup_vt\<close> (lines 258-304)\<close>

text \<open>
  What the terminal answers: whether \<open>VT_GETMODE\<close> and \<open>VT_SETMODE\<close> succeed, and the
  attributes and keyboard mode it reports (\<open>None\<close> where the unchecked call fails and
  leaves its output untouched).
\<close>

record vt_reply =
  getmode_ok :: bool
  setmode_ok :: bool
  tcgetattr_reply :: "termios option"
  kdgkbmode_reply :: "int option"

definition IGNBRK :: "32 word" where "IGNBRK = 1"
definition IGNPAR :: "32 word" where "IGNPAR = 4"
definition PARMRK :: "32 word" where "PARMRK = 8"
definition ISTRIP :: "32 word" where "ISTRIP = 32"
definition CS8 :: "32 word" where "CS8 = 48"
definition CREAD :: "32 word" where "CREAD = 128"
definition VTIME :: nat where "VTIME = 5"
definition VMIN :: nat where "VMIN = 6"

text \<open>
  Lines 289-297: the raw-mode attributes derived from the saved ones. \<open>cfsetispeed\<close> and
  \<open>cfsetospeed\<close> are handed the number 9600, which is not one of the \<open>Bxxx\<close> speed
  constants: both calls fail, their results are not looked at, and the speeds stay as saved.
\<close>

definition raw_tio :: "termios \<Rightarrow> termios" where
  "raw_tio old =
     old\<lparr>c_iflag := (IGNPAR OR IGNBRK) AND NOT PARMRK AND NOT ISTRIP,
         c_oflag := 0,
         c_cflag := CREAD OR CS8,
         c_lflag := 0,
         c_cc := (c_cc old)[VTIME := 0, VMIN := 1]\<rparr>"

definition twin_fbdev_setup_vt :: "vt_reply \<Rightarrow> int \<Rightarrow> twin_fbdev_t \<Rightarrow> bool \<times> twin_fbdev_t" where
  "twin_fbdev_setup_vt r switch_sig tx0 =
    (let tx1 = emit (Ioctl_VT_GETMODE (vt_fd tx0)) tx0 in
     if \<not> getmode_ok r then (False, emit (Log_info ''can't get VT mode'') tx1)
     else
    (let tx2 = emit (Signal switch_sig Handler_vtswitch) tx1;
         tx3 = tx2\<lparr>vt_swsig := switch_sig\<rparr>;
         tx4 = emit (Ioctl_VT_SETMODE (vt_fd tx3) VT_PROCESS switch_sig switch_sig) tx3 in
     if \<not> setmode_ok r
     then (False, emit (Signal switch_sig SIG_IGN) (emit (Log_info ''can't set VT mode'') tx4))
     else
    (let tx5 = emit (Tcgetattr (vt_fd tx4)) tx4;
         tx6 = (case tcgetattr_reply r of None \<Rightarrow> tx5 | Some t \<Rightarrow> tx5\<lparr>old_tio := t\<rparr>);
         tx7 = emit (Ioctl_KDGKBMODE (vt_fd tx6)) tx6;
         tx8 = (case kdgkbmode_reply r of None \<Rightarrow> tx7 | Some k \<Rightarrow> tx7\<lparr>old_kbmode := k\<rparr>);
         tx9 = emit (Ioctl_KDSKBMODE (vt_fd tx8) K_MEDIUMRAW) tx8;
         tx10 = emit (Tcsetattr (vt_fd tx9) (raw_tio (old_tio tx9))) tx9;
         tx11 = emit (Ioctl_KDSETMODE (vx_fd tx10) KD_GRAPHICS) tx10
     in (True, tx11))))"

subsection \<open>\<open>twin_fbdev_init\<close> (lines 306-386)\<close>

text \<open>
  What \<open>init\<close> is answered from outside: the environment variable, the two allocations,
  \<open>open\<close> (\<open>- 1\<close> on failure), \<open>twin_vt_setup\<close> of linux_vt.h (the descriptor it stores on
  success), the terminal, the framebuffer, and the two collaborators that create the screen
  and the input system (\<open>0\<close> is a null input pointer).
\<close>

record init_env =
  env_framebuffer :: "string option"
  calloc_ctx_ok :: bool
  calloc_priv_ok :: bool
  open_result :: int
  vt_setup_result :: "int option"
  vt_replies :: vt_reply
  fb_replies :: os_reply
  screen_create_ok :: bool
  input_create_result :: nat

text \<open>Memory from \<open>calloc\<close>: every field zero. The log starts with the calls made before
  the allocation.\<close>

definition zero_termios :: termios where
  "zero_termios = \<lparr>c_iflag = 0, c_oflag = 0, c_cflag = 0, c_lflag = 0,
     c_cc = replicate 32 0, c_ispeed = 0, c_ospeed = 0\<rparr>"

definition zero_bitfield :: fb_bitfield where
  "zero_bitfield = \<lparr>bf_offset = 0, bf_length = 0\<rparr>"

definition zero_var :: fb_var_screeninfo where
  "zero_var = \<lparr>xres = 0, yres = 0, xres_virtual = 0, yres_virtual = 0, bits_per_pixel = 0,
     red = zero_bitfield, green = zero_bitfield, blue = zero_bitfield\<rparr>"

definition zero_fix :: fb_fix_screeninfo where
  "zero_fix = \<lparr>smem_start = 0, smem_len = 0, line_length = 0\<rparr>"

definition calloc_priv :: "os_call list \<Rightarrow> twin_fbdev_t" where
  "calloc_priv log = \<lparr>tx_screen = None, input = 0, vt_fd = 0, vx_fd = 0, vt_swsig = 0,
     old_kbmode = 0, old_tio = zero_termios, vt_active = False, fb_fd = 0,
     fb_var = zero_var, fb_fix = zero_fix, fb_base = 0, fb_len = 0, calls = log\<rparr>"

text \<open>
  The table \<open>fbdev_put_spans\<close> read at index \<open>bits_per_pixel / 8 - 2\<close>, computed in
  \<open>unsigned int\<close>; an index outside the three entries reads past the array.
\<close>

definition fbdev_put_spans :: "32 word \<Rightarrow> put_span" where
  "fbdev_put_spans bpp =
     (let idx = bpp div 8 - 2 in
      if idx = 0 then Put_span16 else if idx = 1 then Put_span24
      else if idx = 2 then Put_span32 else Put_span_indeterminate)"

text \<open>
  The result of \<open>init\<close>: a null pointer, a context, or (line 349, a \<open>return\<close> without a
  value) an indeterminate pointer. The second component is the log of all calls made.
\<close>

datatype init_result = Init_null | Init_ctx twin_context_t | Init_indeterminate

definition bail :: "twin_fbdev_t \<Rightarrow> init_result \<times> os_call list" where
  "bail tx = (Init_null, calls (emit Free_ctx (emit Free_priv tx)))"

definition bail_fb_fd :: "twin_fbdev_t \<Rightarrow> init_result \<times> os_call list" where
  "bail_fb_fd tx = bail (emit (Close (fb_fd tx)) tx)"

definition bail_vt_fd :: "twin_fbdev_t \<Rightarrow> init_result \<times> os_call list" where
  "bail_vt_fd tx = bail_fb_fd (emit (Close (vt_fd tx)) tx)"

definition bail_screen :: "twin_fbdev_t \<Rightarrow> init_result \<times> os_call list" where
  "bail_screen tx = bail_vt_fd (emit Twin_screen_destroy tx)"

definition twin_fbdev_init :: "init_env \<Rightarrow> 32 word \<Rightarrow> 32 word \<Rightarrow> init_result \<times> os_call list" where
  "twin_fbdev_init e width height =
    (let log0 = [Getenv ''FRAMEBUFFER''];
         log1 = (case env_framebuffer e of
                   None \<Rightarrow>
                     log0 @ [Log_info
                       ''Environment variable $FRAMEBUFFER not set, use %s by default'']
                 | Some p \<Rightarrow> log0);
         fbdev_path = (case env_framebuffer e of None \<Rightarrow> ''/dev/fb0'' | Some p \<Rightarrow> p);
         log2 = log1 @ [Calloc_ctx] in
     if \<not> calloc_ctx_ok e then (Init_null, log2)
     else
    (let log3 = log2 @ [Calloc_priv] in
     if \<not> calloc_priv_ok e then (Init_null, log3)
     else
    (let tx0 = calloc_priv log3;
         tx1 = (emit (Open_rdwr fbdev_path) tx0)\<lparr>fb_fd := open_result e\<rparr> in
     if fb_fd tx1 = - 1 then bail (emit (Log_error ''Failed to open %s'') tx1)
     else
    (let tx2 = emit Twin_vt_setup tx1 in
     case vt_setup_result e of
       None \<Rightarrow> bail_fb_fd tx2
     | Some fd \<Rightarrow>
    (case twin_fbdev_setup_vt (vt_replies e) SIGUSR1 (tx2\<lparr>vt_fd := fd\<rparr>) of (vt_ok, tx3) \<Rightarrow>
     if \<not> vt_ok then bail_vt_fd tx3
     else
    (case twin_fbdev_apply_config (fb_replies e) tx3 of (cfg_ok, tx4) \<Rightarrow>
     if \<not> cfg_ok
     then bail_vt_fd (emit (Log_error
            ''Failed to apply configurations to the framebuffer device'') tx4)
     else if fb_base tx4 = MAP_FAILED
     then (Init_indeterminate, calls (emit (Log_error ''Failed to map framebuffer memory'') tx4))
     else
    (let span = fbdev_put_spans (bits_per_pixel (fb_var tx4));
         tx5 = emit (Twin_screen_create width height span) tx4;
         scr = (if screen_create_ok e
                then Some \<lparr>scr_width = ucast width, scr_height = ucast height,
                            scr_put_span = span\<rparr>
                else None);
         tx6 = (emit Twin_linux_input_create tx5)\<lparr>input := input_create_result e\<rparr> in
     if input tx6 = 0
     then bail_screen (emit (Log_error ''Failed to create Linux input system object'') tx6)
     else
    (let tx7 = emit Twin_set_work tx6;
         tx8 = emit Twin_screen_register_damaged tx7
     in (Init_ctx \<lparr>screen = scr, priv = tx8\<rparr>, calls tx8)))))))))"

subsection \<open>\<open>twin_fbdev_exit\<close> (lines 396-409)\<close>

text \<open>
  The argument is a pointer: null, pointing to a live context, or pointing to a context
  that has been freed. Reading through a pointer to freed memory is undefined in C and is a
  fault of the model. On a live context the function answers the calls it makes, in order,
  and leaves the pointer dangling.
\<close>

datatype ctx_ptr = Null | Live twin_context_t | Dangling

datatype fault = Use_after_free

definition twin_fbdev_exit :: "ctx_ptr \<Rightarrow> fault + ctx_ptr \<times> os_call list" where
  "twin_fbdev_exit p =
     (case p of
        Null \<Rightarrow> Inr (Null, [])
      | Dangling \<Rightarrow> Inl Use_after_free
      | Live c \<Rightarrow>
          (let tx = priv c in
           Inr (Dangling,
                [Twin_vt_mode (vt_fd tx) KD_TEXT,
                 Munmap (fb_base tx) (fb_len tx),
                 Twin_linux_input_destroy (input tx),
                 Close (vt_fd tx),
                 Close (fb_fd tx),
                 Free_priv,
                 Free_ctx])))"

subsection \<open>The span writers (lines 50-84)\<close>

text \<open>
  Memory is a map from 64-bit addresses to bytes. A 32-bit store writes its four bytes
  least significant first, as the little-endian targets of the backend do; the source row is
  an array of 32-bit pixels, whose bytes in memory are the same encoding of each pixel.
\<close>

type_synonym memory = "64 word \<Rightarrow> 8 word"

definition word_bytes :: "32 word \<Rightarrow> 8 word list" where
  "word_bytes v = [ucast v, ucast (drop_bit 8 v), ucast (drop_bit 16 v), ucast (drop_bit 24 v)]"

fun write_bytes :: "memory \<Rightarrow> 64 word \<Rightarrow> 8 word list \<Rightarrow> memory" where
  "write_bytes m a [] = m"
| "write_bytes m a (b # bs) = write_bytes (m(a := b)) (a + 1) bs"

definition store32 :: "memory \<Rightarrow> 64 word \<Rightarrow> 32 word \<Rightarrow> memory" where
  "store32 m a v = write_bytes m a (word_bytes v)"

definition load32 :: "memory \<Rightarrow> 64 word \<Rightarrow> 32 word" where
  "load32 m a = ucast (m a) OR push_bit 8 (ucast (m (a + 1)))
                OR push_bit 16 (ucast (m (a + 2))) OR push_bit 24 (ucast (m (a + 3)))"

definition row_bytes :: "twin_argb32_t list \<Rightarrow> 8 word list" where
  "row_bytes pixels = concat (map word_bytes pixels)"

text \<open>The pixel conversions of lines 54-56 and 63.\<close>

definition argb32_to_rgb565 :: "twin_argb32_t \<Rightarrow> 32 word" where
  "argb32_to_rgb565 p =
     drop_bit 8 (p AND 0x00f80000) OR drop_bit 5 (p AND 0x0000fc00) OR drop_bit 3 (p AND 0x000000f8)"

definition argb32_to_rgb888 :: "twin_argb32_t \<Rightarrow> 32 word" where
  "argb32_to_rgb888 p = 0xff000000 OR p"

text \<open>
  The loop \<open>for (int i = 0; i < width; i++) dest[i] = f(pixels[i])\<close>, started at \<open>i\<close> with
  \<open>k\<close> iterations to go. \<open>dest\<close> points to 32-bit words, so \<open>dest[i]\<close> is at \<open>dest + 4 * i\<close>.
  Reading \<open>pixels[i]\<close> past the end of the row is undefined in C: the result is \<open>None\<close>.
\<close>

fun perline :: "(twin_argb32_t \<Rightarrow> 32 word) \<Rightarrow> 64 word \<Rightarrow> twin_argb32_t list \<Rightarrow>
    nat \<Rightarrow> nat \<Rightarrow> memory \<Rightarrow> memory option" where
  "perline f dest pixels i 0 m = Some m"
| "perline f dest pixels i (Suc k) m =
     (if i < length pixels
      then perline f dest pixels (Suc i) k (store32 m (dest + 4 * of_nat i) (f (pixels ! i)))
      else None)"

definition ARGB32_TO_RGB565_PERLINE ::
    "64 word \<Rightarrow> twin_argb32_t list \<Rightarrow> twin_coord_t \<Rightarrow> memory \<Rightarrow> memory option" where
  "ARGB32_TO_RGB565_PERLINE dest pixels width m =
     perline argb32_to_rgb565 dest pixels 0 (nat (sint width)) m"

definition ARGB32_TO_RGB888_PERLINE ::
    "64 word \<Rightarrow> twin_argb32_t list \<Rightarrow> twin_coord_t \<Rightarrow> memory \<Rightarrow> memory option" where
  "ARGB32_TO_RGB888_PERLINE dest pixels width m =
     perline argb32_to_rgb888 dest pixels 0 (nat (sint width)) m"

text \<open>
  \<open>memcpy(dest, pixels, width * sizeof(*dest))\<close>: \<open>width\<close> is converted to \<open>size_t\<close> (sign
  extension) and multiplied by 4 in 64 bits. Copying more bytes than the row holds reads
  past its end: \<open>None\<close>.
\<close>

definition ARGB32_TO_ARGB32_PERLINE ::
    "64 word \<Rightarrow> twin_argb32_t list \<Rightarrow> twin_coord_t \<Rightarrow> memory \<Rightarrow> memory option" where
  "ARGB32_TO_ARGB32_PERLINE dest pixels width m =
     (let n = unat ((scast width :: 64 word) * 4) in
      if n \<le> length (row_bytes pixels)
      then Some (write_bytes m dest (take n (row_bytes pixels)))
      else None)"

text \<open>
  \<open>FBDEV_PUT_SPAN_IMPL\<close>, lines 69-80. \<open>sizeof(*dest) * left\<close> is formed in \<open>size_t\<close>
  (\<open>left\<close> sign-extended), \<open>top * line_length\<close> in \<open>unsigned int\<close> (32 bits) and then
  widened; \<open>width\<close> is the 16-bit difference.
\<close>

definition span_offset :: "twin_fbdev_t \<Rightarrow> twin_coord_t \<Rightarrow> twin_coord_t \<Rightarrow> 64 word" where
  "span_offset tx left top' =
     4 * scast left + ucast ((scast top' :: 32 word) * line_length (fb_fix tx))"

definition FBDEV_PUT_SPAN_IMPL ::
    "(64 word \<Rightarrow> twin_argb32_t list \<Rightarrow> twin_coord_t \<Rightarrow> memory \<Rightarrow> memory option) \<Rightarrow>
     twin_coord_t \<Rightarrow> twin_coord_t \<Rightarrow> twin_coord_t \<Rightarrow> twin_argb32_t list \<Rightarrow>
     twin_fbdev_t \<Rightarrow> memory \<Rightarrow> memory option" where
  "FBDEV_PUT_SPAN_IMPL op left top' right pixels tx m =
     (let off = span_offset tx left top';
          dest = fb_base tx + off;
          width = right - left
      in op dest pixels width m)"

type_synonym span_writer =
  "twin_coord_t \<Rightarrow> twin_coord_t \<Rightarrow> twin_coord_t \<Rightarrow> twin_argb32_t list \<Rightarrow>
   twin_fbdev_t \<Rightarrow> memory \<Rightarrow> memory option"

definition twin_fbdev_put_span16 :: span_writer where
  "twin_fbdev_put_span16 = FBDEV_PUT_SPAN_IMPL ARGB32_TO_RGB565_PERLINE"

definition twin_fbdev_put_span24 :: span_writer where
  "twin_fbdev_put_span24 = FBDEV_PUT_SPAN_IMPL ARGB32_TO_RGB888_PERLINE"

definition twin_fbdev_put_span32 :: span_writer where
  "twin_fbdev_put_span32 = FBDEV_PUT_SPAN_IMPL ARGB32_TO_ARGB32_PERLINE"

subsection \<open>A sample device\<close>

text \<open>
  Concrete inputs on which the functions above are evaluated: an 800 by 600 device at 32
  bits per pixel whose memory starts off a page boundary, the same device reporting 8 bits
  per pixel, a terminal in cooked mode, and a backend state in the foreground with the
  device mapped and one in the background with the mapping released.
\<close>

definition sample_var32 :: fb_var_screeninfo where
  "sample_var32 = \<lparr>xres = 800, yres = 600, xres_virtual = 800, yres_virtual = 600,
     bits_per_pixel = 32,
     red = \<lparr>bf_offset = 16, bf_length = 8\<rparr>,
     green = \<lparr>bf_offset = 8, bf_length = 8\<rparr>,
     blue = \<lparr>bf_offset = 0, bf_length = 8\<rparr>\<rparr>"

definition sample_var8 :: fb_var_screeninfo where
  "sample_var8 = \<lparr>xres = 800, yres = 600, xres_virtual = 800, yres_virtual = 600,
     bits_per_pixel = 8,
     red = \<lparr>bf_offset = 0, bf_length = 8\<rparr>,
     green = \<lparr>bf_offset = 0, bf_length = 8\<rparr>,
     blue = \<lparr>bf_offset = 0, bf_length = 8\<rparr>\<rparr>"

definition sample_fix :: fb_fix_screeninfo where
  "sample_fix = \<lparr>smem_start = 0xFD000A00, smem_len = 1920000, line_length = 3200\<rparr>"

definition sample_reply :: os_reply where
  "sample_reply = \<lparr>get_var1 = Some sample_var32, put_var = Some sample_var32,
     get_var2 = Some sample_var32, get_fix = Some sample_fix, pagesize = 4096,
     mmap_result = 0x7F0000000000\<rparr>"

definition sample_reply8 :: os_reply where
  "sample_reply8 = \<lparr>get_var1 = Some sample_var8, put_var = Some sample_var8,
     get_var2 = Some sample_var8, get_fix = Some sample_fix, pagesize = 4096,
     mmap_result = 0x7F0000000000\<rparr>"

definition failing_reply :: os_reply where
  "failing_reply = \<lparr>get_var1 = None, put_var = None, get_var2 = None, get_fix = None,
     pagesize = 4096, mmap_result = MAP_FAILED\<rparr>"

definition cooked_tio :: termios where
  "cooked_tio = \<lparr>c_iflag = 0x6d02, c_oflag = 5, c_cflag = 0xbf, c_lflag = 0x8a3b,
     c_cc = replicate 32 0, c_ispeed = 15, c_ospeed = 15\<rparr>"

definition sample_vt_reply :: vt_reply where
  "sample_vt_reply = \<lparr>getmode_ok = True, setmode_ok = True,
     tcgetattr_reply = Some cooked_tio, kdgkbmode_reply = Some 3\<rparr>"

definition sample_init_env :: init_env where
  "sample_init_env = \<lparr>env_framebuffer = None, calloc_ctx_ok = True, calloc_priv_ok = True,
     open_result = 3, vt_setup_result = Some 4, vt_replies = sample_vt_reply,
     fb_replies = sample_reply, screen_create_ok = True, input_create_result = 1\<rparr>"

definition sample_tx :: twin_fbdev_t where
  "sample_tx = (calloc_priv [])\<lparr>input := 1, vt_fd := 4, vt_swsig := 10, old_kbmode := 3,
     old_tio := cooked_tio, vt_active := True, fb_fd := 3,
     fb_var := sample_var32, fb_fix := sample_fix, fb_base := 0x7F0000000000,
     fb_len := 1925120\<rparr>"

definition sample_screen :: twin_screen_t where
  "sample_screen = \<lparr>scr_width = 800, scr_height = 600, scr_put_span = Put_span32\<rparr>"

definition foreground_world :: world where
  "foreground_world = \<lparr>ctx = \<lparr>screen = Some sample_screen, priv = sample_tx\<rparr>,
     vt_switch_pending = False\<rparr>"

definition background_world :: world where
  "background_world =
     \<lparr>ctx = \<lparr>screen = Some sample_screen,
              priv = sample_tx\<lparr>vt_active := False, fb_base := MAP_FAILED\<rparr>\<rparr>,
      vt_switch_pending = False\<rparr>"

definition quiet_tick :: tick_env where
  "quiet_tick = \<lparr>damaged = False, config = sample_reply\<rparr>"

definition damage_tick :: tick_env where
  "damage_tick = \<lparr>damaged = True, config = sample_reply\<rparr>"

definition failing_tick :: tick_env where
  "failing_tick = \<lparr>damaged = False, config = failing_reply\<rparr>"

text \<open>
  Memory holding zero everywhere; a 1024 by 768 device at 16 bits per pixel in the RGB565
  layout, whose rows are 2048 bytes long; the backend state on that device; and what the
  16-bit writer leaves in memory for a white pixel at column 1 and at column 1023 of row 0.
\<close>

definition zero_memory :: memory where
  "zero_memory a = 0"

definition sample_var16 :: fb_var_screeninfo where
  "sample_var16 = \<lparr>xres = 1024, yres = 768, xres_virtual = 1024, yres_virtual = 768,
     bits_per_pixel = 16,
     red = \<lparr>bf_offset = 11, bf_length = 5\<rparr>,
     green = \<lparr>bf_offset = 5, bf_length = 6\<rparr>,
     blue = \<lparr>bf_offset = 0, bf_length = 5\<rparr>\<rparr>"

definition sample_fix16 :: fb_fix_screeninfo where
  "sample_fix16 = \<lparr>smem_start = 0xFD000000, smem_len = 1572864, line_length = 2048\<rparr>"

definition rgb565_tx :: twin_fbdev_t where
  "rgb565_tx = sample_tx\<lparr>fb_var := sample_var16, fb_fix := sample_fix16, fb_len := 1572864\<rparr>"

definition span16_column_1 :: "memory option" where
  "span16_column_1 = twin_fbdev_put_span16 1 0 2 [0xFFFFFFFF] rgb565_tx zero_memory"

definition span16_column_1023 :: "memory option" where
  "span16_column_1023 = twin_fbdev_put_span16 1023 0 1024 [0xFFFFFFFF] rgb565_tx zero_memory"

text \<open>The calls that create or release the mapping.\<close>

fun is_map_call :: "os_call \<Rightarrow> bool" where
  "is_map_call (Mmap len fd) = True"
| "is_map_call (Munmap addr len) = True"
| "is_map_call c = False"

section \<open>Properties\<close>

subsection \<open>The length of the mapping\<close>












subsection \<open>VT switching: one pending flag, drained once per tick\<close>

lemma calls_emit: "calls (emit c tx) = calls tx @ [c]"
  by (simp add: emit_def)

lemma vt_active_emit: "vt_active (emit c tx) = vt_active tx"
  by (simp add: emit_def)

lemma examine_format_frame:
  assumes "examine_format tx = (ok, tx')"
  shows "vt_active tx' = vt_active tx \<and> fb_base tx' = fb_base tx \<and>
         filter is_reldisp (calls tx') = filter is_reldisp (calls tx)"
  using assms by (auto simp add: examine_format_def emit_def split: if_splits)

lemma apply_config_frame:
  assumes "twin_fbdev_apply_config r tx = (ok, tx')"
  shows "vt_active tx' = vt_active tx \<and>
         filter is_reldisp (calls tx') = filter is_reldisp (calls tx)"
  using assms
  by (auto simp add: twin_fbdev_apply_config_def emit_def Let_def
       split: option.splits prod.splits if_splits dest!: examine_format_frame)

lemma switch_vt_active: "vt_active (twin_fbdev_switch r a tx) = a"
  by (auto simp add: twin_fbdev_switch_def emit_def Let_def
       split: option.splits prod.splits dest!: apply_config_frame)

lemma switch_reldisp:
  "length (filter is_reldisp (calls (twin_fbdev_switch r a tx))) =
     Suc (length (filter is_reldisp (calls tx)))"
  by (auto simp add: twin_fbdev_switch_def emit_def Let_def
       split: option.splits prod.splits dest!: apply_config_frame)

lemma work_pending: "vt_switch_pending (twin_fbdev_work e w) = False"
  by (simp add: twin_fbdev_work_def on_priv_def Let_def)

lemma work_vt_active:
  "vt_active (priv (ctx (twin_fbdev_work e w))) =
     (if vt_switch_pending w then \<not> vt_active (priv (ctx w)) else vt_active (priv (ctx w)))"
  by (simp add: twin_fbdev_work_def on_priv_def Let_def switch_vt_active emit_def)

lemma work_transitions:
  "transitions (twin_fbdev_work e w) =
     (if vt_switch_pending w then Suc (transitions w) else transitions w)"
  by (simp add: twin_fbdev_work_def on_priv_def Let_def transitions_def switch_reldisp emit_def)

lemma vtswitch_facts:
  "vt_switch_pending (twin_fbdev_vtswitch sig w) = True"
  "vt_active (priv (ctx (twin_fbdev_vtswitch sig w))) = vt_active (priv (ctx w))"
  "transitions (twin_fbdev_vtswitch sig w) = transitions w"
  by (simp_all add: twin_fbdev_vtswitch_def on_priv_def transitions_def emit_def)

lemma deliver_facts:
  "vt_switch_pending (deliver n sig w) = (vt_switch_pending w \<or> 0 < n)"
  "vt_active (priv (ctx (deliver n sig w))) = vt_active (priv (ctx w))"
  "transitions (deliver n sig w) = transitions w"
  by (induction n arbitrary: w) (simp_all add: vtswitch_facts)

lemma run_ticks_idle:
  assumes "\<not> vt_switch_pending w"
  shows "transitions (run_ticks es w) = transitions w \<and>
         vt_active (priv (ctx (run_ticks es w))) = vt_active (priv (ctx w)) \<and>
         \<not> vt_switch_pending (run_ticks es w)"
  using assms
  by (induction es arbitrary: w) (simp_all add: work_transitions work_vt_active work_pending)

lemma burst:
  "transitions (run_ticks es (deliver (length es) sig w)) = transitions w + min (length es) 1 \<and>
   (vt_active (priv (ctx (run_ticks es (deliver (length es) sig w)))) \<longleftrightarrow>
      (if es = [] then vt_active (priv (ctx w)) else \<not> vt_active (priv (ctx w))))"
proof (cases es)
  case Nil
  then show ?thesis by simp
next
  case (Cons e es')
  let ?w1 = "twin_fbdev_work e (deliver (length es) sig w)"
  have "\<not> vt_switch_pending ?w1" by (simp add: work_pending)
  from run_ticks_idle [OF this, of es'] show ?thesis
    using Cons by (simp add: work_transitions work_vt_active deliver_facts vtswitch_facts)
qed

lemma interleaved:
  "transitions (signal_then_tick es sig w) = transitions w + length es \<and>
   (vt_active (priv (ctx (signal_then_tick es sig w))) \<longleftrightarrow>
      (if even (length es) then vt_active (priv (ctx w)) else \<not> vt_active (priv (ctx w))))"
  by (induction es arbitrary: w) (simp_all add: work_transitions work_vt_active vtswitch_facts)

text \<open>
  C1, as the code has it. The handler only sets the one boolean \<open>vt_switch_pending\<close>, so
  signals delivered before a tick are not counted. Starting in the foreground, for every
  \<open>N\<close>: after \<open>N\<close> signals followed by \<open>N\<close> ticks exactly \<open>min N 1\<close> transitions have
  been applied and the state is the foreground only if \<open>N = 0\<close>; when instead every signal
  is followed by its own tick, the \<open>N\<close> ticks apply exactly \<open>N\<close> transitions, each one to
  the opposite state, and the final state is the foreground if and only if \<open>N\<close> is even.
\<close>

theorem burst_is_coalesced:
  assumes "vt_active (priv (ctx w))" and "length es = n"
  shows "transitions (run_ticks es (deliver n sig w)) = transitions w + min n 1 \<and>
         (vt_active (priv (ctx (run_ticks es (deliver n sig w)))) \<longleftrightarrow> n = 0) \<and>
         transitions (signal_then_tick es sig w) = transitions w + n \<and>
         (vt_active (priv (ctx (signal_then_tick es sig w))) \<longleftrightarrow> even n)"
  using assms burst [of es sig w] interleaved [of es sig w] by auto

theorem burst_is_coalesced_witness:
  "vt_active (priv (ctx foreground_world)) \<and> length [quiet_tick, damage_tick, quiet_tick] = 3 \<and>
   transitions (run_ticks [quiet_tick, damage_tick, quiet_tick] (deliver 3 SIGUSR1 foreground_world))
     = transitions foreground_world + 1 \<and>
   \<not> vt_active (priv (ctx (run_ticks [quiet_tick, damage_tick, quiet_tick]
                          (deliver 3 SIGUSR1 foreground_world)))) \<and>
   transitions (signal_then_tick [quiet_tick, damage_tick, quiet_tick] SIGUSR1 foreground_world)
     = transitions foreground_world + 3 \<and>
   \<not> vt_active (priv (ctx (signal_then_tick [quiet_tick, damage_tick, quiet_tick] SIGUSR1
                          foreground_world)))"
proof -
  have a: "vt_active (priv (ctx foreground_world))"
    by (simp add: foreground_world_def sample_tx_def)
  have l: "length [quiet_tick, damage_tick, quiet_tick] = 3" by simp
  show ?thesis
    using burst_is_coalesced [OF a l, of SIGUSR1] a by simp
qed

text \<open>Two signals before two ticks, from the foreground: one transition, and the final
  state is the background although two is even.\<close>

theorem burst_of_two_is_one_transition:
  "vt_active (priv (ctx foreground_world)) \<and>
   transitions foreground_world = 0 \<and>
   transitions (run_ticks [quiet_tick, quiet_tick] (deliver 2 SIGUSR1 foreground_world)) = 1 \<and>
   \<not> vt_active (priv (ctx (run_ticks [quiet_tick, quiet_tick]
                          (deliver 2 SIGUSR1 foreground_world))))"
  by (simp add: numeral_2_eq_2 twin_fbdev_work_def twin_fbdev_vtswitch_def twin_fbdev_switch_def
        on_priv_def transitions_def emit_def Let_def MAP_FAILED_def
        foreground_world_def quiet_tick_def sample_tx_def calloc_priv_def)

subsection \<open>Format validation\<close>

lemma examine_format_fst:
  "fst (examine_format tx) =
     (if bits_per_pixel (fb_var tx) = 16 then twin_fbdev_is_rgb565 tx
      else if bits_per_pixel (fb_var tx) = 24 then twin_fbdev_is_rgb888 tx
      else if bits_per_pixel (fb_var tx) = 32 then twin_fbdev_is_argb32 tx
      else True)"
  by (simp add: examine_format_def)

lemma apply_config_fst:
  "fst (twin_fbdev_apply_config r tx) =
     (case (get_var1 r, put_var r, get_var2 r) of
        (Some v1, Some v2, Some v3) \<Rightarrow>
          fst (examine_format (tx\<lparr>fb_var := v3\<rparr>)) \<and> mmap_result r \<noteq> MAP_FAILED
      | _ \<Rightarrow> False)"
  by (auto simp add: twin_fbdev_apply_config_def Let_def case_prod_beta examine_format_fst emit_def
        twin_fbdev_is_rgb565_def twin_fbdev_is_rgb888_def twin_fbdev_is_argb32_def
       split: option.splits)

lemma apply_config_fst_any:
  "fst (twin_fbdev_apply_config r tx) = fst (twin_fbdev_apply_config r tx')"
  by (simp add: apply_config_fst examine_format_fst
        twin_fbdev_is_rgb565_def twin_fbdev_is_rgb888_def twin_fbdev_is_argb32_def
       split: option.splits)

lemma apply_config_mapped:
  assumes "twin_fbdev_apply_config r tx = (True, tx')"
  shows "fb_base tx' \<noteq> MAP_FAILED"
  using assms
  by (auto simp add: twin_fbdev_apply_config_def emit_def Let_def
       split: option.splits prod.splits if_splits)

text \<open>
  X1. When the three mode ioctls and \<open>mmap\<close> succeed and the device reports 16, 24 or 32
  bits per pixel, \<open>twin_fbdev_apply_config\<close> succeeds exactly when the red, green and blue
  fields are those of the depth's layout: offsets and lengths 11/5, 5/6, 0/5 at 16 bits,
  16/8, 8/8, 0/8 at 24 and at 32 bits.
\<close>

theorem format_gate_on_supported_depths:
  assumes "get_var1 r = Some v1" and "put_var r = Some v2" and "get_var2 r = Some v3"
    and "mmap_result r \<noteq> MAP_FAILED"
    and "bits_per_pixel v3 = 16 \<or> bits_per_pixel v3 = 24 \<or> bits_per_pixel v3 = 32"
  shows "fst (twin_fbdev_apply_config r tx) \<longleftrightarrow>
     (if bits_per_pixel v3 = 16
      then red v3 = \<lparr>bf_offset = 11, bf_length = 5\<rparr> \<and>
           green v3 = \<lparr>bf_offset = 5, bf_length = 6\<rparr> \<and>
           blue v3 = \<lparr>bf_offset = 0, bf_length = 5\<rparr>
      else red v3 = \<lparr>bf_offset = 16, bf_length = 8\<rparr> \<and>
           green v3 = \<lparr>bf_offset = 8, bf_length = 8\<rparr> \<and>
           blue v3 = \<lparr>bf_offset = 0, bf_length = 8\<rparr>)"
  using assms
  by (auto simp add: twin_fbdev_apply_config_def examine_format_def emit_def Let_def
        twin_fbdev_is_rgb565_def twin_fbdev_is_rgb888_def twin_fbdev_is_argb32_def
       split: prod.splits)

theorem format_gate_on_supported_depths_witness:
  "get_var1 sample_reply = Some sample_var32 \<and> put_var sample_reply = Some sample_var32 \<and>
   get_var2 sample_reply = Some sample_var32 \<and> mmap_result sample_reply \<noteq> MAP_FAILED \<and>
   bits_per_pixel sample_var32 = 32 \<and>
   fst (twin_fbdev_apply_config sample_reply sample_tx)"
proof -
  have h: "get_var1 sample_reply = Some sample_var32" "put_var sample_reply = Some sample_var32"
    "get_var2 sample_reply = Some sample_var32" "mmap_result sample_reply \<noteq> MAP_FAILED"
    by (simp_all add: sample_reply_def MAP_FAILED_def)
  have d: "bits_per_pixel sample_var32 = 16 \<or> bits_per_pixel sample_var32 = 24 \<or>
           bits_per_pixel sample_var32 = 32"
    by (simp add: sample_var32_def)
  show ?thesis
    using format_gate_on_supported_depths [OF h d, of sample_tx] h
    by (simp add: sample_var32_def)
qed


text \<open>
  C2, evaluated on a device that reports 8 bits per pixel: the \<open>default\<close> label logs the
  unsupported depth and breaks, so validation passes, \<open>twin_fbdev_apply_config\<close> goes on to
  map the device and answers success with the unvalidated layout in place.
\<close>

theorem unsupported_depth_is_accepted:
  "fst (examine_format (sample_tx\<lparr>fb_var := sample_var8\<rparr>)) = True \<and>
   fst (twin_fbdev_apply_config sample_reply8 sample_tx) = True \<and>
   bits_per_pixel (fb_var (snd (twin_fbdev_apply_config sample_reply8 sample_tx))) = 8 \<and>
   fb_base (snd (twin_fbdev_apply_config sample_reply8 sample_tx)) = 0x7F0000000000"
  by (simp add: twin_fbdev_apply_config_def examine_format_def emit_def Let_def MAP_FAILED_def
        sample_reply8_def sample_var8_def sample_tx_def sample_fix_def)

subsection \<open>Flushing on a tick\<close>

text \<open>
  C3, evaluated in the background with the mapping released: a tick on a damaged screen
  asks the compositor to update all the same, since \<open>twin_fbdev_work\<close> does not look at
  \<open>vt_active\<close>; the damage notification of lines 103-111, given the same state, asks nothing.
\<close>

theorem tick_flushes_in_background:
  "\<not> vt_active (priv (ctx background_world)) \<and>
   fb_base (priv (ctx background_world)) = MAP_FAILED \<and>
   calls (priv (ctx (twin_fbdev_work damage_tick background_world)))
     = [Twin_screen_damaged, Twin_screen_update] \<and>
   calls (priv (ctx (twin_fbdev_damaged True background_world))) = []"
  by (simp add: twin_fbdev_work_def twin_fbdev_damaged_def on_priv_def emit_def Let_def
        background_world_def damage_tick_def sample_tx_def calloc_priv_def)

text \<open>
  X2. Outside the foreground the damage notification does nothing at all: it neither asks
  the screen for its damage nor requests an update.
\<close>

theorem damage_notify_only_in_foreground:
  assumes "\<not> vt_active (priv (ctx w))"
  shows "twin_fbdev_damaged d w = w"
  using assms by (simp add: twin_fbdev_damaged_def)

theorem damage_notify_only_in_foreground_witness:
  "\<not> vt_active (priv (ctx background_world)) \<and>
   twin_fbdev_damaged True background_world = background_world"
proof -
  have h: "\<not> vt_active (priv (ctx background_world))"
    by (simp add: background_world_def sample_tx_def)
  show ?thesis using damage_notify_only_in_foreground [OF h, of True] h by simp
qed

text \<open>
  X3. A tick applies one VT transition when the flag is set and none otherwise, and the
  flag is clear after every tick.
\<close>

theorem one_transition_per_tick:
  "transitions (twin_fbdev_work e w) = transitions w + (if vt_switch_pending w then 1 else 0) \<and>
   vt_switch_pending (twin_fbdev_work e w) = False"
  by (simp add: work_transitions work_pending)

subsection \<open>The mapping and the VT state\<close>

text \<open>
  X4. A release always ends inactive with the pointer at the sentinel, and a re-acquire
  whose \<open>twin_fbdev_apply_config\<close> succeeds ends active with a valid pointer.
\<close>

theorem transitions_establish_invariant:
  assumes "fst (twin_fbdev_apply_config r tx)"
  shows "\<not> vt_active (twin_fbdev_switch r' False tx) \<and>
         fb_base (twin_fbdev_switch r' False tx) = MAP_FAILED \<and>
         vt_active (twin_fbdev_switch r True tx) \<and>
         fb_base (twin_fbdev_switch r True tx) \<noteq> MAP_FAILED"
proof -
  let ?tx2 = "emit (Ioctl_VT_RELDISP (vt_fd tx) VT_ACKACQ) (tx\<lparr>vt_active := True\<rparr>)"
  obtain ok tx3 where c: "twin_fbdev_apply_config r ?tx2 = (ok, tx3)" by force
  have "fst (twin_fbdev_apply_config r ?tx2)"
    using assms apply_config_fst_any [of r ?tx2 tx] by simp
  then have ok: "ok" using c by simp
  then have "fb_base tx3 \<noteq> MAP_FAILED" using c apply_config_mapped by simp
  then have "fb_base (twin_fbdev_switch r True tx) \<noteq> MAP_FAILED"
    using c ok by (simp add: twin_fbdev_switch_def Let_def emit_def split: option.splits)
  then show ?thesis
    by (simp add: switch_vt_active) (simp add: twin_fbdev_switch_def Let_def emit_def)
qed

theorem transitions_establish_invariant_witness:
  "fst (twin_fbdev_apply_config sample_reply sample_tx) \<and>
   \<not> vt_active (twin_fbdev_switch failing_reply False sample_tx) \<and>
   fb_base (twin_fbdev_switch failing_reply False sample_tx) = MAP_FAILED \<and>
   vt_active (twin_fbdev_switch sample_reply True sample_tx) \<and>
   fb_base (twin_fbdev_switch sample_reply True sample_tx) \<noteq> MAP_FAILED"
proof -
  have h: "fst (twin_fbdev_apply_config sample_reply sample_tx)"
    by (simp add: apply_config_fst examine_format_fst twin_fbdev_is_argb32_def
          sample_reply_def sample_var32_def MAP_FAILED_def)
  show ?thesis
    using transitions_establish_invariant [OF h, of failing_reply] h by simp
qed

text \<open>
  C5, evaluated on a re-acquire that fails: in the background with a switch pending, a
  tick whose first \<open>FBIOGET_VSCREENINFO\<close> fails leaves \<open>vt_active\<close> true (line 205 has
  already set it) while the buffer pointer is still \<open>MAP_FAILED\<close>.
\<close>

theorem failed_reacquire_is_active_unmapped:
  "\<not> vt_active (priv (ctx background_world)) \<and>
   fb_base (priv (ctx background_world)) = MAP_FAILED \<and>
   vt_active (priv (ctx (twin_fbdev_work failing_tick
                           (background_world\<lparr>vt_switch_pending := True\<rparr>)))) \<and>
   fb_base (priv (ctx (twin_fbdev_work failing_tick
                           (background_world\<lparr>vt_switch_pending := True\<rparr>)))) = MAP_FAILED"
  by (simp add: twin_fbdev_work_def twin_fbdev_switch_def twin_fbdev_apply_config_def
        on_priv_def emit_def Let_def
        background_world_def failing_tick_def failing_reply_def sample_tx_def calloc_priv_def)

text \<open>A successful \<open>init\<close> breaks the same invariant the other way round: the device is
  mapped, and \<open>vt_active\<close> is still the zero that \<open>calloc\<close> left.\<close>

lemma init_leaves_vt_inactive:
  "(case fst (twin_fbdev_init sample_init_env 800 600) of
      Init_ctx c \<Rightarrow> \<not> vt_active (priv c) \<and> fb_base (priv c) = 0x7F0000000000
    | Init_null \<Rightarrow> False
    | Init_indeterminate \<Rightarrow> False)"
  by (simp add: twin_fbdev_init_def twin_fbdev_setup_vt_def twin_fbdev_apply_config_def
        examine_format_def twin_fbdev_is_argb32_def map_length_def
        map_start_def emit_def Let_def MAP_FAILED_def
        sample_init_env_def sample_vt_reply_def sample_reply_def sample_var32_def
        sample_fix_def calloc_priv_def)

subsection \<open>Unmapping and teardown\<close>

text \<open>
  C6, as the code has it. The unmap of a VT release is guarded by the sentinel test and
  followed at once by storing the sentinel: after \<open>twin_fbdev_switch\<close> to the background
  the pointer is \<open>MAP_FAILED\<close>, \<open>munmap\<close> is called exactly when the pointer was valid
  before, and it is the last call made; a second release calls no \<open>munmap\<close>. \<open>exit\<close> is
  for one call per context: it frees the context and leaves the pointer dangling, and a
  second call on that pointer reads freed memory.
\<close>

theorem release_unmap_is_guarded:
  "fb_base (twin_fbdev_switch r False tx) = MAP_FAILED \<and>
   calls (twin_fbdev_switch r False tx) =
     calls tx @ Ioctl_VT_RELDISP (vt_fd tx) 1 #
       (if fb_base tx = MAP_FAILED then [] else [Munmap (fb_base tx) (fb_len tx)]) \<and>
   calls (twin_fbdev_switch r' False (twin_fbdev_switch r False tx)) =
     calls (twin_fbdev_switch r False tx) @ [Ioctl_VT_RELDISP (vt_fd tx) 1] \<and>
   (\<exists>cs. twin_fbdev_exit (Live c) = Inr (Dangling, cs)) \<and>
   twin_fbdev_exit Dangling = Inl Use_after_free"
  by (simp add: twin_fbdev_switch_def twin_fbdev_exit_def emit_def Let_def)

text \<open>\<open>exit\<close> on a context in the background calls \<open>munmap\<close> on the sentinel, and a
  second \<open>exit\<close> on the same pointer is a fault, not a call without effect.\<close>

theorem second_exit_is_not_a_noop:
  "twin_fbdev_exit (Live (ctx background_world)) =
     Inr (Dangling, [Twin_vt_mode 4 KD_TEXT, Munmap MAP_FAILED 1925120,
                     Twin_linux_input_destroy 1, Close 4, Close 3, Free_priv, Free_ctx]) \<and>
   twin_fbdev_exit Dangling = Inl Use_after_free"
  by (simp add: twin_fbdev_exit_def background_world_def sample_tx_def calloc_priv_def)

text \<open>
  C8, evaluated on the context a successful \<open>init\<close> answers: the keyboard mode and the
  terminal attributes were saved by \<open>twin_fbdev_setup_vt\<close>, and \<open>exit\<close> makes seven calls,
  none of which is \<open>KDSKBMODE\<close> or \<open>tcsetattr\<close>; only \<open>twin_vt_mode\<close> with \<open>KD_TEXT\<close>
  touches the terminal.
\<close>

theorem exit_leaves_keyboard_and_termios:
  "(case fst (twin_fbdev_init sample_init_env 800 600) of
      Init_ctx c \<Rightarrow>
        old_kbmode (priv c) = 3 \<and> old_tio (priv c) = cooked_tio \<and>
        twin_fbdev_exit (Live c) =
          Inr (Dangling, [Twin_vt_mode 4 KD_TEXT, Munmap 0x7F0000000000 1925120,
                          Twin_linux_input_destroy 1, Close 4, Close 3, Free_priv, Free_ctx])
    | Init_null \<Rightarrow> False
    | Init_indeterminate \<Rightarrow> False)"
  by (simp add: twin_fbdev_init_def twin_fbdev_setup_vt_def twin_fbdev_apply_config_def
        examine_format_def twin_fbdev_is_argb32_def twin_fbdev_exit_def map_length_def
        map_start_def emit_def Let_def MAP_FAILED_def
        sample_init_env_def sample_vt_reply_def sample_reply_def sample_var32_def
        sample_fix_def calloc_priv_def)

subsection \<open>The span writers\<close>

lemma write_bytes_append:
  "write_bytes m a (bs @ cs) = write_bytes (write_bytes m a bs) (a + of_nat (length bs)) cs"
  by (induction bs arbitrary: m a) (simp_all add: algebra_simps)

lemma unat_pred_diff:
  fixes x a :: "64 word"
  assumes "x \<noteq> a"
  shows "unat (x - (a + 1)) = unat (x - a) - 1"
proof -
  have "x - a \<noteq> 0" using assms by simp
  then have "unat (x - a - 1) = unat (x - a) - 1" by (rule unat_minus_one)
  then show ?thesis by (simp add: algebra_simps)
qed

lemma write_bytes_get:
  assumes "length bs < 2 ^ 64"
  shows "write_bytes m a bs x = (if unat (x - a) < length bs then bs ! unat (x - a) else m x)"
  using assms
proof (induction bs arbitrary: m a)
  case Nil
  then show ?case by simp
next
  case (Cons b bs)
  then have len: "length bs < 2 ^ 64" by simp
  show ?case
  proof (cases "x = a")
    case True
    have "unat (a - (a + 1)) = 2 ^ 64 - 1"
      by (simp add: unsigned_minus_1_eq_mask mask_eq_exp_minus_1)
    then have "\<not> unat (a - (a + 1)) < length bs" using Cons.prems by simp
    then show ?thesis using True Cons.IH [OF len] by simp
  next
    case False
    then have nz: "unat (x - a) \<noteq> 0" by (simp add: unat_eq_0)
    show ?thesis
      using False nz Cons.IH [OF len] unat_pred_diff [OF False]
      by (cases "unat (x - a)") auto
  qed
qed

lemma length_word_bytes: "length (word_bytes v) = 4"
  by (simp add: word_bytes_def)

lemma length_row_bytes: "length (row_bytes ps) = 4 * length ps"
  by (induction ps) (simp_all add: row_bytes_def length_word_bytes)

lemma row_bytes_Cons: "row_bytes (p # ps) = word_bytes p @ row_bytes ps"
  by (simp add: row_bytes_def)

lemma perline_writes:
  assumes "i + k \<le> length pixels"
  shows "perline f dest pixels i k m =
           Some (write_bytes m (dest + 4 * of_nat i) (row_bytes (map f (take k (drop i pixels)))))"
  using assms
proof (induction k arbitrary: i m)
  case 0
  then show ?case by (simp add: row_bytes_def)
next
  case (Suc k)
  then have i: "i < length pixels" and ik: "Suc i + k \<le> length pixels" by simp_all
  have t: "take (Suc k) (drop i pixels) = pixels ! i # take k (drop (Suc i) pixels)"
    using i by (simp flip: Cons_nth_drop_Suc)
  have a: "dest + 4 * of_nat i + of_nat (length (word_bytes (f (pixels ! i)))) =
           dest + 4 * of_nat (Suc i)"
    by (simp add: algebra_simps length_word_bytes)
  show ?case
    using i Suc.IH [OF ik]
    by (simp add: t row_bytes_Cons write_bytes_append store32_def a del: of_nat_Suc)
qed

lemma load32_word_bytes:
  "ucast (word_bytes v ! 0) OR push_bit 8 (ucast (word_bytes v ! 1)) OR
   push_bit 16 (ucast (word_bytes v ! 2)) OR push_bit 24 (ucast (word_bytes v ! 3)) = v"
proof (rule bit_word_eqI)
  fix n :: nat
  assume "n < LENGTH(32)"
  then consider "n < 8" | "8 \<le> n" "n < 16" | "16 \<le> n" "n < 24" | "24 \<le> n" "n < 32"
    by fastforce
  then show "bit (ucast (word_bytes v ! 0) OR push_bit 8 (ucast (word_bytes v ! 1)) OR
     push_bit 16 (ucast (word_bytes v ! 2)) OR push_bit 24 (ucast (word_bytes v ! 3)) :: 32 word) n
     = bit v n"
    by cases (auto simp add: word_bytes_def bit_simps)
qed

lemma row_bytes_nth:
  assumes "i < length ps" and "k < 4"
  shows "row_bytes ps ! (4 * i + k) = word_bytes (ps ! i) ! k"
  using assms
proof (induction ps arbitrary: i)
  case Nil
  then show ?case by simp
next
  case (Cons p ps)
  show ?case
  proof (cases i)
    case 0
    then show ?thesis using Cons.prems
      by (simp add: row_bytes_Cons nth_append length_word_bytes)
  next
    case (Suc j)
    then have "j < length ps" using Cons.prems by simp
    from Cons.IH [OF this \<open>k < 4\<close>] show ?thesis
      using Suc by (simp add: row_bytes_Cons nth_append length_word_bytes)
  qed
qed


lemma unat_offset:
  fixes a :: "64 word"
  assumes "n < 2 ^ 64"
  shows "unat (a + of_nat n - a) = n"
proof -
  have "a + of_nat n - a = (of_nat n :: 64 word)" by simp
  moreover have "unat (of_nat n :: 64 word) = n"
    using assms by (simp add: unat_of_nat take_bit_nat_eq_self)
  ultimately show ?thesis by simp
qed

lemma write_bytes_nth:
  assumes "j < length bs" and "length bs < 2 ^ 64"
  shows "write_bytes m a bs (a + of_nat j) = bs ! j"
proof -
  have "j < 2 ^ 64" using assms by simp
  then have "unat (a + of_nat j - a) = j" by (rule unat_offset)
  then show ?thesis using assms by (simp add: write_bytes_get)
qed

lemma load32_row:
  assumes "i < length vs" and "length vs < 2 ^ 16"
  shows "load32 (write_bytes m a (row_bytes vs)) (a + 4 * of_nat i) = vs ! i"
proof -
  let ?m = "write_bytes m a (row_bytes vs)"
  have len: "length (row_bytes vs) < 2 ^ 64" using assms by (simp add: length_row_bytes)
  have b: "?m (a + of_nat (4 * i + k)) = word_bytes (vs ! i) ! k" if "k < 4" for k
  proof -
    have "4 * i + k < length (row_bytes vs)" using assms that by (simp add: length_row_bytes)
    then have "?m (a + of_nat (4 * i + k)) = row_bytes vs ! (4 * i + k)"
      using len by (rule write_bytes_nth)
    then show ?thesis using assms that by (simp add: row_bytes_nth)
  qed
  have "?m (a + 4 * of_nat i) = word_bytes (vs ! i) ! 0"
    using b [of 0] by simp
  moreover have "?m (a + 4 * of_nat i + 1) = word_bytes (vs ! i) ! 1"
    using b [of 1] by (simp add: algebra_simps)
  moreover have "?m (a + 4 * of_nat i + 2) = word_bytes (vs ! i) ! 2"
    using b [of 2] by (simp add: algebra_simps)
  moreover have "?m (a + 4 * of_nat i + 3) = word_bytes (vs ! i) ! 3"
    using b [of 3] by (simp add: algebra_simps)
  ultimately show ?thesis
    by (simp only: load32_def load32_word_bytes)
qed


lemma span_width:
  fixes left right :: "16 word"
  assumes "0 \<le> sint left" and "sint left \<le> sint right"
  shows "sint (right - left) = sint right - sint left"
proof -
  have "sint right < 2 ^ 15" using sint_lt [of right] by simp
  then have "- (2 ^ 15) \<le> sint right - sint left" and "sint right - sint left < 2 ^ 15"
    using assms by simp_all
  then have "signed_take_bit 15 (sint right - sint left) = sint right - sint left"
    by (rule signed_take_bit_int_eq_self)
  then show ?thesis by (simp add: sint_word_diff)
qed

lemma memcpy_count:
  fixes w :: "16 word"
  assumes "0 \<le> sint w"
  shows "unat ((scast w :: 64 word) * 4) = 4 * nat (sint w)"
proof -
  obtain n where n: "sint w = int n" using assms by (rule nonneg_int_cases)
  have "sint w < 2 ^ 15" using sint_lt [of w] by simp
  then have lt: "4 * n < 2 ^ 64" using n by simp
  have "(scast w :: 64 word) = word_of_int (int n)" by (simp only: scast_eq n)
  then have "(scast w :: 64 word) * 4 = of_nat (4 * n)" by simp
  then have "unat ((scast w :: 64 word) * 4) = 4 * n"
    using lt by (simp only: unat_of_nat) (simp add: take_bit_nat_eq_self)
  then show ?thesis by (simp only: n nat_int)
qed

lemma span_address:
  assumes "0 \<le> sint top'" and "sint top' * uint (line_length (fb_fix tx)) < 2 ^ 32"
  shows "fb_base tx + span_offset tx left top' =
         word_of_int (uint (fb_base tx) + sint left * 4 + sint top' * uint (line_length (fb_fix tx)))"
proof -
  let ?s = "line_length (fb_fix tx)"
  have nn: "0 \<le> sint top' * uint ?s" using assms by simp
  have "(scast top' :: 32 word) * ?s = word_of_int (sint top') * word_of_int (uint ?s)"
    by (simp only: scast_eq word_of_int_uint)
  also have "\<dots> = word_of_int (sint top' * uint ?s)" by (simp only: of_int_mult)
  finally have "uint ((scast top' :: 32 word) * ?s) = (sint top' * uint ?s) mod 2 ^ 32"
    by (simp only: uint_word_of_int) simp
  also have "\<dots> = sint top' * uint ?s" using nn assms(2) by simp
  finally have t: "(ucast ((scast top' :: 32 word) * ?s) :: 64 word) = word_of_int (sint top' * uint ?s)"
    by (simp only: ucast_eq)
  have l: "4 * (scast left :: 64 word) = word_of_int (sint left * 4)"
    by (simp only: scast_eq of_int_mult) simp
  have b: "fb_base tx = word_of_int (uint (fb_base tx))" by (simp only: word_of_int_uint)
  have "fb_base tx + span_offset tx left top' =
        word_of_int (uint (fb_base tx)) + (word_of_int (sint left * 4) + word_of_int (sint top' * uint ?s))"
    unfolding span_offset_def t l by (subst b) (rule refl)
  then show ?thesis by (simp only: of_int_add add.assoc)
qed


lemma put_span_dest:
  assumes "0 \<le> sint left" and "sint left \<le> sint right"
    and "length pixels = nat (sint right - sint left)"
  shows "FBDEV_PUT_SPAN_IMPL (\<lambda>dest ps w. perline f dest ps 0 (nat (sint w))) left top' right pixels tx m =
           Some (write_bytes m (fb_base tx + span_offset tx left top') (row_bytes (map f pixels)))"
proof -
  have w: "nat (sint (right - left)) = length pixels"
    using assms by (simp add: span_width)
  have "perline f (fb_base tx + span_offset tx left top') pixels 0 (length pixels) m =
        Some (write_bytes m (fb_base tx + span_offset tx left top' + 4 * of_nat 0)
               (row_bytes (map f (take (length pixels) (drop 0 pixels)))))"
    by (rule perline_writes) simp
  then show ?thesis by (simp add: FBDEV_PUT_SPAN_IMPL_def Let_def w)
qed

lemma put_span32_dest:
  assumes "0 \<le> sint left" and "sint left \<le> sint right"
    and "length pixels = nat (sint right - sint left)"
  shows "twin_fbdev_put_span32 left top' right pixels tx m =
           Some (write_bytes m (fb_base tx + span_offset tx left top') (row_bytes pixels))"
proof -
  have w: "sint (right - left) = sint right - sint left" using assms by (simp add: span_width)
  then have "0 \<le> sint (right - left)" using assms by simp
  then have "unat ((scast (right - left) :: 64 word) * 4) = 4 * nat (sint (right - left))"
    by (rule memcpy_count)
  then have "unat ((scast (right - left) :: 64 word) * 4) = length (row_bytes pixels)"
    using assms w by (simp add: length_row_bytes)
  then show ?thesis
    by (simp add: twin_fbdev_put_span32_def FBDEV_PUT_SPAN_IMPL_def ARGB32_TO_ARGB32_PERLINE_def
          Let_def)
qed

lemma store32_apply:
  "store32 m a v x =
     (if x = a + 3 then ucast (drop_bit 24 v)
      else if x = a + 2 then ucast (drop_bit 16 v)
      else if x = a + 1 then ucast (drop_bit 8 v)
      else if x = a then ucast v else m x)"
  by (simp add: store32_def word_bytes_def algebra_simps)

text \<open>
  C4, evaluated on a device validated as RGB565, for which \<open>init\<close> selects the 16-bit
  writer. The writer's destination is a pointer to 32-bit words (lines 74-77), so the pixel
  of column 1 is stored as the four bytes \<open>FF FF 00 00\<close> at byte offset 4 of the row, and
  the bytes 2 and 3, where a 16-bit pixel of column 1 lives, are left as they were; the
  pixel of column 1023 is stored at byte offset 4092, beyond the 2048 bytes of row 0, and
  the bytes 2046 and 2047 of the row are left as they were.
\<close>

theorem put_span16_writes_32_bit_slots:
  "fst (examine_format rgb565_tx) \<and>
   fbdev_put_spans (bits_per_pixel (fb_var rgb565_tx)) = Put_span16 \<and>
   fb_base rgb565_tx = 0x7F0000000000 \<and> line_length (fb_fix rgb565_tx) = 2048 \<and>
   span16_column_1 \<noteq> None \<and>
   map (the span16_column_1)
     [0x7F0000000000, 0x7F0000000001, 0x7F0000000002, 0x7F0000000003,
      0x7F0000000004, 0x7F0000000005, 0x7F0000000006, 0x7F0000000007]
     = [0, 0, 0, 0, 0xFF, 0xFF, 0, 0] \<and>
   span16_column_1023 \<noteq> None \<and>
   map (the span16_column_1023) [0x7F00000007FE, 0x7F00000007FF] = [0, 0] \<and>
   map (the span16_column_1023)
     [0x7F0000000FFC, 0x7F0000000FFD, 0x7F0000000FFE, 0x7F0000000FFF]
     = [0xFF, 0xFF, 0, 0]"
  by (simp add: span16_column_1_def span16_column_1023_def rgb565_tx_def sample_tx_def
        sample_var16_def sample_fix16_def calloc_priv_def zero_memory_def
        examine_format_def twin_fbdev_is_rgb565_def fbdev_put_spans_def
        twin_fbdev_put_span16_def FBDEV_PUT_SPAN_IMPL_def ARGB32_TO_RGB565_PERLINE_def
        span_offset_def argb32_to_rgb565_def Let_def store32_apply)

text \<open>
  X6. The 24-bit and the 32-bit writer, whose device pixels occupy one 32-bit word each. For
  every call with \<open>0 \<le> left \<le> right \<le> width\<close>, \<open>0 \<le> top < height\<close>, a row offset
  \<open>top * stride\<close> that fits the 32-bit \<open>unsigned int\<close> it is computed in, and a source row
  of exactly \<open>right - left\<close> pixels: both writers return, and write from the address
  \<open>bufferBase + left * 4 + top * stride\<close> on. Word \<open>i\<close> then holds \<open>0xFF000000 | src\<close>
  after the 24-bit writer and the pixel itself after the 32-bit writer, whose output is the
  source row byte for byte.
\<close>

theorem put_span_word_slots:
  fixes left top' right width height :: twin_coord_t
  assumes "0 \<le> sint left" and "sint left \<le> sint right" and "sint right \<le> sint width"
    and "0 \<le> sint top'" and "sint top' < sint height"
    and "sint top' * uint (line_length (fb_fix tx)) < 2 ^ 32"
    and "length pixels = nat (sint right - sint left)"
  shows "let dst = word_of_int (uint (fb_base tx) + sint left * 4
                                + sint top' * uint (line_length (fb_fix tx))) :: 64 word
         in \<exists>m24 m32.
           twin_fbdev_put_span24 left top' right pixels tx m = Some m24 \<and>
           twin_fbdev_put_span32 left top' right pixels tx m = Some m32 \<and>
           (\<forall>i<length pixels. load32 m24 (dst + 4 * of_nat i) = (0xFF000000 OR pixels ! i)) \<and>
           (\<forall>i<length pixels. load32 m32 (dst + 4 * of_nat i) = pixels ! i) \<and>
           (\<forall>j<4 * length pixels. m32 (dst + of_nat j) = row_bytes pixels ! j)"
proof -
  let ?d = "fb_base tx + span_offset tx left top'"
  have d: "word_of_int (uint (fb_base tx) + sint left * 4
              + sint top' * uint (line_length (fb_fix tx))) = ?d"
    using assms(4,6) by (rule span_address [symmetric])
  have "sint right < 2 ^ 15" using sint_lt [of right] by simp
  then have n: "length pixels < 2 ^ 16" using assms(1,2,7) by simp
  then have nb: "length (row_bytes pixels) < 2 ^ 64" by (simp add: length_row_bytes)
  have s24: "twin_fbdev_put_span24 left top' right pixels tx m =
               Some (write_bytes m ?d (row_bytes (map argb32_to_rgb888 pixels)))"
    unfolding twin_fbdev_put_span24_def ARGB32_TO_RGB888_PERLINE_def
    using assms(1,2,7) by (rule put_span_dest)
  have s32: "twin_fbdev_put_span32 left top' right pixels tx m =
               Some (write_bytes m ?d (row_bytes pixels))"
    using assms(1,2,7) by (rule put_span32_dest)
  have r24: "load32 (write_bytes m ?d (row_bytes (map argb32_to_rgb888 pixels))) (?d + 4 * of_nat i)
               = argb32_to_rgb888 (pixels ! i)" if "i < length pixels" for i
    using load32_row [of i "map argb32_to_rgb888 pixels" m ?d] that n by simp
  have r32: "load32 (write_bytes m ?d (row_bytes pixels)) (?d + 4 * of_nat i) = pixels ! i"
    if "i < length pixels" for i
    using load32_row [of i pixels m ?d] that n by simp
  have b32: "write_bytes m ?d (row_bytes pixels) (?d + of_nat j) = row_bytes pixels ! j"
    if "j < 4 * length pixels" for j
    using write_bytes_nth [of j "row_bytes pixels" m ?d] that nb by (simp add: length_row_bytes)
  show ?thesis
    unfolding Let_def d s24 s32
    using r24 r32 b32
    by (simp add: argb32_to_rgb888_def)
qed

theorem put_span_word_slots_witness:
  "0 \<le> sint (1 :: twin_coord_t) \<and> sint (1 :: twin_coord_t) \<le> sint (3 :: twin_coord_t) \<and>
   sint (3 :: twin_coord_t) \<le> sint (800 :: twin_coord_t) \<and>
   0 \<le> sint (2 :: twin_coord_t) \<and> sint (2 :: twin_coord_t) < sint (600 :: twin_coord_t) \<and>
   sint (2 :: twin_coord_t) * uint (line_length (fb_fix sample_tx)) < 2 ^ 32 \<and>
   length [0x80FF8040, 0x12345678 :: twin_argb32_t] = nat (sint (3 :: twin_coord_t) - sint (1 :: twin_coord_t)) \<and>
   (\<exists>m24 m32.
      twin_fbdev_put_span24 1 2 3 [0x80FF8040, 0x12345678] sample_tx zero_memory = Some m24 \<and>
      twin_fbdev_put_span32 1 2 3 [0x80FF8040, 0x12345678] sample_tx zero_memory = Some m32 \<and>
      load32 m24 0x7F0000001904 = 0xFFFF8040 \<and> load32 m24 0x7F0000001908 = 0xFF345678 \<and>
      load32 m32 0x7F0000001904 = 0x80FF8040 \<and> load32 m32 0x7F0000001908 = 0x12345678 \<and>
      m32 0x7F0000001904 = 0x40 \<and> m32 0x7F0000001905 = 0x80 \<and>
      m32 0x7F0000001906 = 0xFF \<and> m32 0x7F0000001907 = 0x80)"
proof -
  have h1: "0 \<le> sint (1 :: twin_coord_t)" by simp
  have h2: "sint (1 :: twin_coord_t) \<le> sint (3 :: twin_coord_t)" by simp
  have h3: "sint (3 :: twin_coord_t) \<le> sint (800 :: twin_coord_t)" by simp
  have h4: "0 \<le> sint (2 :: twin_coord_t)" by simp
  have h5: "sint (2 :: twin_coord_t) < sint (600 :: twin_coord_t)" by simp
  have h6: "sint (2 :: twin_coord_t) * uint (line_length (fb_fix sample_tx)) < 2 ^ 32"
    by (simp add: sample_tx_def sample_fix_def)
  have h7: "length [0x80FF8040, 0x12345678 :: twin_argb32_t] =
            nat (sint (3 :: twin_coord_t) - sint (1 :: twin_coord_t))" by simp
  have a: "(word_of_int (uint (fb_base sample_tx) + sint (1 :: twin_coord_t) * 4
              + sint (2 :: twin_coord_t) * uint (line_length (fb_fix sample_tx))) :: 64 word)
           = 0x7F0000001904"
    by (simp add: sample_tx_def sample_fix_def)
  from put_span_word_slots [OF h1 h2 h3 h4 h5 h6 h7, of zero_memory]
  obtain m24 m32 where
    s: "twin_fbdev_put_span24 1 2 3 [0x80FF8040, 0x12345678] sample_tx zero_memory = Some m24"
       "twin_fbdev_put_span32 1 2 3 [0x80FF8040, 0x12345678] sample_tx zero_memory = Some m32"
    and r24: "\<forall>i<2. load32 m24 (0x7F0000001904 + 4 * of_nat i) =
              (0xFF000000 OR [0x80FF8040, 0x12345678] ! i)"
    and r32: "\<forall>i<2. load32 m32 (0x7F0000001904 + 4 * of_nat i) = [0x80FF8040, 0x12345678] ! i"
    and b32: "\<forall>j<8. m32 (0x7F0000001904 + of_nat j) = row_bytes [0x80FF8040, 0x12345678] ! j"
    unfolding Let_def a by auto
  have "load32 m24 0x7F0000001904 = 0xFFFF8040" using r24 [rule_format, of 0] by simp
  moreover have "load32 m24 0x7F0000001908 = 0xFF345678" using r24 [rule_format, of 1] by simp
  moreover have "load32 m32 0x7F0000001904 = 0x80FF8040" using r32 [rule_format, of 0] by simp
  moreover have "load32 m32 0x7F0000001908 = 0x12345678" using r32 [rule_format, of 1] by simp
  moreover have "m32 0x7F0000001904 = 0x40" using b32 [rule_format, of 0] by (simp add: row_bytes_def word_bytes_def)
  moreover have "m32 0x7F0000001905 = 0x80" using b32 [rule_format, of 1] by (simp add: row_bytes_def word_bytes_def)
  moreover have "m32 0x7F0000001906 = 0xFF" using b32 [rule_format, of 2] by (simp add: row_bytes_def word_bytes_def)
  moreover have "m32 0x7F0000001907 = 0x80" using b32 [rule_format, of 3] by (simp add: row_bytes_def word_bytes_def)
  ultimately show ?thesis using s h6 by simp
qed

subsection \<open>Failure of \<open>init\<close>\<close>

text \<open>
  C9, evaluated at three failures. When the input system cannot be created, \<open>init\<close>
  answers null but the device stays mapped: the only mapping call of the whole run is the
  \<open>mmap\<close>. When the screen cannot be created, nothing checks it and a context without a
  screen is answered. When the private state cannot be allocated, \<open>init\<close> answers null
  without freeing the context allocated just before.
\<close>

theorem init_failure_leaks:
  "fst (twin_fbdev_init (sample_init_env\<lparr>input_create_result := 0\<rparr>) 800 600) = Init_null \<and>
   filter is_map_call (snd (twin_fbdev_init (sample_init_env\<lparr>input_create_result := 0\<rparr>)
                              800 600)) = [Mmap 1925120 3] \<and>
   (case fst (twin_fbdev_init (sample_init_env\<lparr>screen_create_ok := False\<rparr>) 800 600) of
      Init_ctx c \<Rightarrow> screen c = None
    | Init_null \<Rightarrow> False
    | Init_indeterminate \<Rightarrow> False) \<and>
   twin_fbdev_init (sample_init_env\<lparr>calloc_priv_ok := False\<rparr>) 800 600 =
     (Init_null, [Getenv ''FRAMEBUFFER'',
                  Log_info ''Environment variable $FRAMEBUFFER not set, use %s by default'',
                  Calloc_ctx, Calloc_priv])"
  by (simp add: twin_fbdev_init_def twin_fbdev_setup_vt_def twin_fbdev_apply_config_def
        examine_format_def twin_fbdev_is_argb32_def map_length_def
        map_start_def emit_def Let_def MAP_FAILED_def
        bail_def bail_fb_fd_def bail_vt_fd_def bail_screen_def
        sample_init_env_def sample_vt_reply_def sample_reply_def sample_var32_def
        sample_fix_def calloc_priv_def)

text \<open>
  X5. \<open>init\<close> never leaves through the \<open>return\<close> without a value of line 349: whenever
  \<open>twin_fbdev_apply_config\<close> has succeeded the buffer pointer is not \<open>MAP_FAILED\<close>, so the
  result is a null pointer or a context.
\<close>

theorem init_never_indeterminate:
  "fst (twin_fbdev_init e width height) \<noteq> Init_indeterminate"
  by (auto simp add: twin_fbdev_init_def Let_def bail_def bail_fb_fd_def bail_vt_fd_def
        bail_screen_def split: option.splits prod.splits dest: apply_config_mapped)

subsection \<open>A null context\<close>

text \<open>
  C10. Called with a null context, \<open>twin_fbdev_exit\<close> returns at once: it makes no call
  at all (no unmap, no close, no free) and there is still no context.
\<close>

theorem exit_null_is_noop: "twin_fbdev_exit Null = Inr (Null, [])"
  by (simp add: twin_fbdev_exit_def)

end
